theory Spec2Isabelle
  imports Complex_Main
begin

section \<open>The cable calculator engine of \<^verbatim>\<open>cable_calculator.py\<close>\<close>

text \<open>
  The engine consists of the module-level table \<^verbatim>\<open>CABLE_DATA\<close>, the constant
  \<^verbatim>\<open>ALPHA_COPPER\<close> and the two functions \<^verbatim>\<open>calculate_voltage_drop\<close> and
  \<^verbatim>\<open>determine_cores_required\<close>.

  Numbers. Python's \<^verbatim>\<open>float\<close> is idealised as \<^typ>\<open>real\<close>: each operation
  below is exact, so the rounding of a result to 53 bits and NaN inputs are outside the
  model. The range of a double is in the model where leaving it raises: converting the
  int \<^verbatim>\<open>num_cores\<close> to float in line 51, and converting the quotient of line 92 to an
  int in line 93, raise \<^verbatim>\<open>OverflowError\<close> once the value is beyond the largest double.
  The one infinite value the code itself produces, \<^verbatim>\<open>float('inf')\<close>, is a
  constructor of the result type of the reverse solver. Python's \<^verbatim>\<open>int\<close> is
  \<^typ>\<open>int\<close>. Exceptions are values: a function that can raise returns
  \<open>py_error + 'a\<close>, with \<open>Inl\<close> for the exception.
\<close>

subsection \<open>Exceptions and values\<close>

datatype py_error = ValueError | ZeroDivisionError | OverflowError

text \<open>
  What \<^verbatim>\<open>determine_cores_required\<close> hands back: either a Python \<^verbatim>\<open>int\<close>
  (\<^verbatim>\<open>1\<close> or \<^verbatim>\<open>max(1, int(round(...)))\<close>) or the float \<^verbatim>\<open>float('inf')\<close>.
\<close>

datatype py_number = PyInt int | PyFloat_inf

text \<open>\<^verbatim>\<open>isinstance(v, float)\<close> and \<^verbatim>\<open>isinstance(v, int)\<close>.\<close>

fun is_float :: "py_number \<Rightarrow> bool" where
  "is_float (PyInt n) = False"
| "is_float PyFloat_inf = True"

fun is_int :: "py_number \<Rightarrow> bool" where
  "is_int (PyInt n) = True"
| "is_int PyFloat_inf = False"

text \<open>
  Python's numeric \<^verbatim>\<open>==\<close> between two such values, as the caller uses it in
  \<^verbatim>\<open>cores_needed == float("inf")\<close> and \<^verbatim>\<open>cores_needed == 1\<close>: an int never equals
  the infinite float.
\<close>

fun py_eq :: "py_number \<Rightarrow> py_number \<Rightarrow> bool" where
  "py_eq (PyInt m) (PyInt n) = (m = n)"
| "py_eq PyFloat_inf PyFloat_inf = True"
| "py_eq (PyInt m) PyFloat_inf = False"
| "py_eq PyFloat_inf (PyInt n) = False"

text \<open>True division \<^verbatim>\<open>a / b\<close>: raises \<^verbatim>\<open>ZeroDivisionError\<close> when \<^verbatim>\<open>b\<close> is zero.\<close>

definition py_truediv :: "real \<Rightarrow> real \<Rightarrow> py_error + real" where
  "py_truediv a b = (if b = 0 then Inl ZeroDivisionError else Inr (a / b))"

text \<open>
  The builtin \<^verbatim>\<open>round(x)\<close> with one argument (Python 3): the nearest integer, a tie
  going to the even neighbour.
\<close>

definition py_round :: "real \<Rightarrow> int" where
  "py_round x =
     (let f = \<lfloor>x\<rfloor>; d = x - of_int f
      in if d < 1 / 2 then f
         else if 1 / 2 < d then f + 1
         else if even f then f else f + 1)"

text \<open>
  The largest double is \<open>2 ^ 1024 - 2 ^ 971\<close>. Rounded to the nearest double, a value
  is beyond it from \<open>2 ^ 1024 - 2 ^ 970\<close> on, in either direction.
\<close>

definition double_overflows :: "real \<Rightarrow> bool" where
  "double_overflows x = (2 ^ 1024 - 2 ^ 970 \<le> \<bar>x\<bar>)"

text \<open>
  The conversion of an int operand of a float operation: \<^verbatim>\<open>OverflowError\<close> (int too
  large to convert to float) when the int is beyond the largest double.
\<close>

definition py_float_of_int :: "int \<Rightarrow> py_error + real" where
  "py_float_of_int n =
     (if double_overflows (of_int n) then Inl OverflowError else Inr (of_int n))"

text \<open>
  \<^verbatim>\<open>int(round(x))\<close> of line 93. A quotient beyond the largest double is infinite in the
  code, and \<^verbatim>\<open>round\<close> of an infinite float raises \<^verbatim>\<open>OverflowError\<close>.
\<close>

definition py_int_round :: "real \<Rightarrow> py_error + int" where
  "py_int_round x = (if double_overflows x then Inl OverflowError else Inr (py_round x))"

subsection \<open>The table and the temperature coefficient\<close>

text \<open>
  \<^verbatim>\<open>CABLE_DATA\<close> is a dict of dicts: cable type, then conductor specification, then
  ohms per metre at 20 degrees Celsius.
\<close>

definition CABLE_DATA :: "string \<rightharpoonup> (string \<rightharpoonup> real)" where
  "CABLE_DATA =
     map_of
       [(''alarm'', map_of [(''18 AWG'', 0.0209), (''22 AWG'', 0.0333), (''24 AWG'', 0.0529)]),
        (''network'', map_of [(''Cat5e'', 0.0938), (''Cat6'', 0.0700)])]"

definition ALPHA_COPPER :: real where
  "ALPHA_COPPER = 0.00393"

text \<open>
  Lines 40 to 43 and again 72 to 75: the membership test
  \<^verbatim>\<open>cable_type not in CABLE_DATA or conductor_spec not in CABLE_DATA[cable_type]\<close>
  followed by the subscript \<^verbatim>\<open>CABLE_DATA[cable_type][conductor_spec]\<close>. \<open>None\<close> is the
  case in which the test is true and the function raises \<^verbatim>\<open>ValueError\<close>.
\<close>

definition resistance_per_meter_at_20c :: "string \<Rightarrow> string \<Rightarrow> real option" where
  "resistance_per_meter_at_20c cable_type conductor_spec =
     (case CABLE_DATA cable_type of
        None \<Rightarrow> None
      | Some specs \<Rightarrow> specs conductor_spec)"

text \<open>
  Lines 46 and 76, the same expression in both functions:
  \<^verbatim>\<open>resistance_per_meter_at_20c * (1 + ALPHA_COPPER * (temp_c - 20))\<close>.
\<close>

definition resistance_per_meter_at_temp :: "real \<Rightarrow> real \<Rightarrow> real" where
  "resistance_per_meter_at_temp r20 temp_c = r20 * (1 + ALPHA_COPPER * (temp_c - 20))"

subsection \<open>The forward calculator\<close>

definition calculate_voltage_drop ::
  "real \<Rightarrow> real \<Rightarrow> string \<Rightarrow> string \<Rightarrow> int \<Rightarrow> real \<Rightarrow> py_error + real" where
  "calculate_voltage_drop length_m current_a cable_type conductor_spec num_cores temp_c =
     (case resistance_per_meter_at_20c cable_type conductor_spec of
        None \<Rightarrow> Inl ValueError
      | Some r20 \<Rightarrow>
          (case py_float_of_int num_cores of
             Inl e \<Rightarrow> Inl e
           | Inr cores \<Rightarrow>
               (case py_truediv (resistance_per_meter_at_temp r20 temp_c * length_m * 2)
                       cores of
                  Inl e \<Rightarrow> Inl e
                | Inr total_resistance \<Rightarrow> Inr (current_a * total_resistance))))"

subsection \<open>The reverse solver\<close>

definition determine_cores_required ::
  "real \<Rightarrow> real \<Rightarrow> real \<Rightarrow> string \<Rightarrow> string \<Rightarrow> real \<Rightarrow> real \<Rightarrow> py_error + py_number" where
  "determine_cores_required length_m required_voltage required_current cable_type
       conductor_spec min_voltage_percent_drop temp_c =
     (case resistance_per_meter_at_20c cable_type conductor_spec of
        None \<Rightarrow> Inl ValueError
      | Some r20 \<Rightarrow>
          (case py_truediv min_voltage_percent_drop 100 of
             Inl e \<Rightarrow> Inl e
           | Inr fraction \<Rightarrow>
               (let max_allowed_voltage_drop = required_voltage * fraction
                in if required_current = 0
                   then Inr (if 0 \<le> max_allowed_voltage_drop then PyInt 1 else PyFloat_inf)
                   else
                     (case py_truediv max_allowed_voltage_drop required_current of
                        Inl e \<Rightarrow> Inl e
                      | Inr max_allowed_resistance \<Rightarrow>
                          (let single_path_resistance =
                                 resistance_per_meter_at_temp r20 temp_c * length_m * 2
                           in if max_allowed_resistance \<le> 0
                              then Inr PyFloat_inf
                              else
                                (case py_truediv single_path_resistance
                                        max_allowed_resistance of
                                   Inl e \<Rightarrow> Inl e
                                 | Inr cores_needed \<Rightarrow>
                                     (case py_int_round cores_needed of
                                        Inl e \<Rightarrow> Inl e
                                      | Inr n \<Rightarrow> Inr (PyInt (max 1 n)))))))))"

subsection \<open>Where the exact arithmetic stands for the doubles\<close>


section \<open>Auxiliary facts\<close>

lemma lookup_alarm_18: "resistance_per_meter_at_20c ''alarm'' ''18 AWG'' = Some 0.0209"
  by (simp add: resistance_per_meter_at_20c_def CABLE_DATA_def)

lemma lookup_alarm_22: "resistance_per_meter_at_20c ''alarm'' ''22 AWG'' = Some 0.0333"
  by (simp add: resistance_per_meter_at_20c_def CABLE_DATA_def)

lemma lookup_alarm_24: "resistance_per_meter_at_20c ''alarm'' ''24 AWG'' = Some 0.0529"
  by (simp add: resistance_per_meter_at_20c_def CABLE_DATA_def)

lemma lookup_network_cat5e: "resistance_per_meter_at_20c ''network'' ''Cat5e'' = Some 0.0938"
  by (simp add: resistance_per_meter_at_20c_def CABLE_DATA_def)

lemma lookup_network_cat6: "resistance_per_meter_at_20c ''network'' ''Cat6'' = Some 0.0700"
  by (simp add: resistance_per_meter_at_20c_def CABLE_DATA_def)

lemma lookup_other:
  assumes "(cable_type, conductor_spec) \<notin>
      {(''alarm'', ''18 AWG''), (''alarm'', ''22 AWG''), (''alarm'', ''24 AWG''),
       (''network'', ''Cat5e''), (''network'', ''Cat6'')}"
  shows "resistance_per_meter_at_20c cable_type conductor_spec = None"
  using assms by (auto simp: resistance_per_meter_at_20c_def CABLE_DATA_def)


lemma lookup_positive:
  assumes "resistance_per_meter_at_20c cable_type conductor_spec = Some r20"
  shows "0 < r20"
  using assms
  by (auto simp: resistance_per_meter_at_20c_def CABLE_DATA_def split: if_splits)

lemma int_in_double_range:
  assumes "\<bar>n\<bar> < 2 ^ 1024 - 2 ^ 970"
  shows "\<not> double_overflows (of_int n)"
proof -
  from assms have "real_of_int \<bar>n\<bar> < real_of_int (2 ^ 1024 - 2 ^ 970)"
    by (simp only: of_int_less_iff)
  then show ?thesis
    by (simp add: double_overflows_def)
qed

lemma forward_valid:
  assumes "resistance_per_meter_at_20c cable_type conductor_spec = Some r20"
    and "num_cores \<noteq> 0"
    and "\<bar>num_cores\<bar> < 2 ^ 1024 - 2 ^ 970"
  shows "calculate_voltage_drop length_m current_a cable_type conductor_spec num_cores temp_c =
     Inr (current_a *
          (resistance_per_meter_at_temp r20 temp_c * length_m * 2 / of_int num_cores))"
  using assms(1,2) int_in_double_range [OF assms(3)]
  by (simp add: calculate_voltage_drop_def py_float_of_int_def py_truediv_def)

lemma forward_overflow:
  assumes "resistance_per_meter_at_20c cable_type conductor_spec = Some r20"
    and "double_overflows (of_int num_cores)"
  shows "calculate_voltage_drop length_m current_a cable_type conductor_spec num_cores temp_c =
     Inl OverflowError"
  using assms by (simp add: calculate_voltage_drop_def py_float_of_int_def)

lemma forward_zero_cores:
  assumes "resistance_per_meter_at_20c cable_type conductor_spec = Some r20"
  shows "calculate_voltage_drop length_m current_a cable_type conductor_spec 0 temp_c =
     Inl ZeroDivisionError"
  using assms
  by (simp add: calculate_voltage_drop_def py_float_of_int_def double_overflows_def
      py_truediv_def)

lemma forward_invalid:
  assumes "resistance_per_meter_at_20c cable_type conductor_spec = None"
  shows "calculate_voltage_drop length_m current_a cable_type conductor_spec num_cores temp_c =
     Inl ValueError"
  using assms by (simp add: calculate_voltage_drop_def)

lemma reverse_invalid:
  assumes "resistance_per_meter_at_20c cable_type conductor_spec = None"
  shows "determine_cores_required length_m required_voltage required_current cable_type
       conductor_spec min_voltage_percent_drop temp_c = Inl ValueError"
  using assms by (simp add: determine_cores_required_def)

lemma reverse_zero_current:
  assumes "resistance_per_meter_at_20c cable_type conductor_spec = Some r20"
  shows "determine_cores_required length_m required_voltage 0 cable_type
       conductor_spec min_voltage_percent_drop temp_c =
     Inr (if 0 \<le> required_voltage * (min_voltage_percent_drop / 100)
          then PyInt 1 else PyFloat_inf)"
  using assms by (simp add: determine_cores_required_def py_truediv_def)

lemma reverse_infeasible:
  assumes "resistance_per_meter_at_20c cable_type conductor_spec = Some r20"
    and "required_current \<noteq> 0"
    and "required_voltage * (min_voltage_percent_drop / 100) / required_current \<le> 0"
  shows "determine_cores_required length_m required_voltage required_current cable_type
       conductor_spec min_voltage_percent_drop temp_c = Inr PyFloat_inf"
  using assms by (simp add: determine_cores_required_def py_truediv_def Let_def)

lemma reverse_quotient:
  assumes "resistance_per_meter_at_20c cable_type conductor_spec = Some r20"
    and "required_current \<noteq> 0"
    and "0 < required_voltage * (min_voltage_percent_drop / 100) / required_current"
  shows "determine_cores_required length_m required_voltage required_current cable_type
       conductor_spec min_voltage_percent_drop temp_c =
     (case py_int_round
        (resistance_per_meter_at_temp r20 temp_c * length_m * 2 /
         (required_voltage * (min_voltage_percent_drop / 100) / required_current)) of
        Inl e \<Rightarrow> Inl e
      | Inr n \<Rightarrow> Inr (PyInt (max 1 n)))"
proof -
  define m where
    "m = required_voltage * (min_voltage_percent_drop / 100) / required_current"
  have "0 < m"
    using assms(3) unfolding m_def .
  then have m: "m \<noteq> 0" "\<not> m \<le> 0"
    by simp_all
  have "py_truediv (required_voltage * (min_voltage_percent_drop / 100)) required_current
      = Inr m"
    using assms(2) by (simp add: py_truediv_def m_def)
  moreover have "py_truediv min_voltage_percent_drop 100 = Inr (min_voltage_percent_drop / 100)"
    by (simp add: py_truediv_def)
  moreover have "py_truediv a m = Inr (a / m)" for a
    using m by (simp add: py_truediv_def)
  ultimately show ?thesis
    unfolding determine_cores_required_def m_def [symmetric]
    using assms(1,2) m by (simp add: Let_def)
qed


lemma reverse_overflow:
  assumes "resistance_per_meter_at_20c cable_type conductor_spec = Some r20"
    and "required_current \<noteq> 0"
    and "0 < required_voltage * (min_voltage_percent_drop / 100) / required_current"
    and "double_overflows
        (resistance_per_meter_at_temp r20 temp_c * length_m * 2 /
         (required_voltage * (min_voltage_percent_drop / 100) / required_current))"
  shows "determine_cores_required length_m required_voltage required_current cable_type
       conductor_spec min_voltage_percent_drop temp_c = Inl OverflowError"
  using assms(4) by (simp add: reverse_quotient [OF assms(1,2,3)] py_int_round_def)





section \<open>The forward calculator\<close>

text \<open>
  C1. For a catalogued pair and at least one core, the core count within the range of a
  double, the forward calculator returns
  \<open>current_a * (r20 * (1 + 0.00393 * (temp_c - 20)) * length_m * 2 / num_cores)\<close>, where
  \<open>r20\<close> is the tabulated resistance per metre; 50 m of 18 AWG alarm cable at 0.5 A, one
  core and 20 degrees drop 1.045 V.
\<close>

theorem forward_formula:
  assumes "resistance_per_meter_at_20c cable_type conductor_spec = Some r20"
    and "1 \<le> num_cores"
    and "num_cores < 2 ^ 1024 - 2 ^ 970"
  shows "calculate_voltage_drop length_m current_a cable_type conductor_spec num_cores temp_c =
       Inr (current_a * (r20 * (1 + 0.00393 * (temp_c - 20)) * length_m * 2 / of_int num_cores))
     \<and> calculate_voltage_drop 50 0.5 ''alarm'' ''18 AWG'' 1 20 = Inr 1.045"
proof
  from assms(2,3) have n: "num_cores \<noteq> 0" "\<bar>num_cores\<bar> < 2 ^ 1024 - 2 ^ 970"
    by simp_all
  show "calculate_voltage_drop length_m current_a cable_type conductor_spec
      num_cores temp_c =
      Inr (current_a * (r20 * (1 + 0.00393 * (temp_c - 20)) * length_m * 2 / of_int num_cores))"
    by (simp add: forward_valid [OF assms(1) n] resistance_per_meter_at_temp_def
        ALPHA_COPPER_def)
  have one: "(1::int) \<noteq> 0" "\<bar>1::int\<bar> < 2 ^ 1024 - 2 ^ 970"
    by simp_all
  show "calculate_voltage_drop 50 0.5 ''alarm'' ''18 AWG'' 1 20 = Inr 1.045"
    by (simp add: forward_valid [OF lookup_alarm_18 one] resistance_per_meter_at_temp_def
        ALPHA_COPPER_def)
qed

theorem forward_formula_witness:
  "resistance_per_meter_at_20c ''network'' ''Cat6'' = Some 0.07 \<and> (1::int) \<le> 3
   \<and> (3::int) < 2 ^ 1024 - 2 ^ 970
   \<and> calculate_voltage_drop 100 2 ''network'' ''Cat6'' 3 35 =
       Inr (2 * (0.07 * (1 + 0.00393 * (35 - 20)) * 100 * 2 / 3))"
proof -
  have h: "resistance_per_meter_at_20c ''network'' ''Cat6'' = Some 0.07"
    using lookup_network_cat6 by simp
  have c: "(1::int) \<le> 3" and b: "(3::int) < 2 ^ 1024 - 2 ^ 970"
    by simp_all
  show ?thesis
    using h b forward_formula [OF h c b, of 100 2 35] by simp
qed


text \<open>
  C3, as stated, fails: nothing clamps the temperature factor, so below about -234.45
  degrees the compensated resistance and with it the drop are negative.
\<close>

theorem forward_negative_drop_counterexample:
  "(0::real) < 50 \<and> (0::real) \<le> 1 / 2 \<and> (1::int) \<le> 1
   \<and> resistance_per_meter_at_20c ''alarm'' ''18 AWG'' = Some 0.0209
   \<and> calculate_voltage_drop 50 (1 / 2) ''alarm'' ''18 AWG'' 1 (- 300) = Inr (- 0.269192)
   \<and> \<not> (0::real) \<le> - 0.269192"
proof -
  have one: "(1::int) \<noteq> 0" "\<bar>1::int\<bar> < 2 ^ 1024 - 2 ^ 970"
    by simp_all
  show ?thesis
    by (simp add: forward_valid [OF lookup_alarm_18 one] lookup_alarm_18
        resistance_per_meter_at_temp_def ALPHA_COPPER_def)
qed

text \<open>
  C3, amended. For a catalogued pair, \<open>length_m > 0\<close>, \<open>current_a \<ge> 0\<close>, at least one core,
  the core count within the range of a double, and a temperature at which the factor
  \<open>1 + 0.00393 * (temp_c - 20)\<close> is not negative, the forward calculator returns a drop
  that is not negative.
\<close>

theorem forward_drop_nonnegative:
  assumes "resistance_per_meter_at_20c cable_type conductor_spec = Some r20"
    and "0 < length_m" and "0 \<le> current_a" and "1 \<le> num_cores"
    and "num_cores < 2 ^ 1024 - 2 ^ 970"
    and "0 \<le> 1 + 0.00393 * (temp_c - 20)"
  shows "\<exists>voltage_drop.
      calculate_voltage_drop length_m current_a cable_type conductor_spec num_cores temp_c =
        Inr voltage_drop \<and> 0 \<le> voltage_drop"
proof -
  from assms(4,5) have n: "num_cores \<noteq> 0" "(0::real) < of_int num_cores"
    and b: "\<bar>num_cores\<bar> < 2 ^ 1024 - 2 ^ 970"
    by simp_all
  from assms(1) have "0 < r20"
    by (rule lookup_positive)
  with assms(6) have "0 \<le> resistance_per_meter_at_temp r20 temp_c"
    by (simp add: resistance_per_meter_at_temp_def ALPHA_COPPER_def)
  with assms(2) have "0 \<le> resistance_per_meter_at_temp r20 temp_c * length_m * 2"
    by simp
  with n(2) have "0 \<le> resistance_per_meter_at_temp r20 temp_c * length_m * 2 / of_int num_cores"
    by (simp only: divide_nonneg_pos)
  with assms(3) have "0 \<le> current_a *
      (resistance_per_meter_at_temp r20 temp_c * length_m * 2 / of_int num_cores)"
    by (rule mult_nonneg_nonneg)
  with forward_valid [OF assms(1) n(1) b] show ?thesis
    by simp
qed

theorem forward_drop_nonnegative_witness:
  "resistance_per_meter_at_20c ''alarm'' ''22 AWG'' = Some 0.0333
   \<and> (0::real) < 30 \<and> (0::real) \<le> 2 \<and> (1::int) \<le> 2
   \<and> (2::int) < 2 ^ 1024 - 2 ^ 970
   \<and> (0::real) \<le> 1 + 0.00393 * (- 40 - 20)
   \<and> (\<exists>voltage_drop.
        calculate_voltage_drop 30 2 ''alarm'' ''22 AWG'' 2 (- 40) = Inr voltage_drop
        \<and> 0 \<le> voltage_drop)"
proof -
  have h: "resistance_per_meter_at_20c ''alarm'' ''22 AWG'' = Some 0.0333"
    using lookup_alarm_22 by simp
  have l: "(0::real) < 30" and c: "(0::real) \<le> 2" and n: "(1::int) \<le> 2"
    and b: "(2::int) < 2 ^ 1024 - 2 ^ 970"
    and t: "(0::real) \<le> 1 + 0.00393 * (- 40 - 20)"
    by simp_all
  show ?thesis
    using h l c n b t forward_drop_nonnegative [OF h l c n b t] by simp
qed

text \<open>
  C8. For a catalogued pair and a core count \<open>N\<close> other than zero and within the range
  of a double, the drop with \<open>N\<close> cores is the drop with one core divided by \<open>N\<close>; scaling the current or the length
  by \<open>k\<close> scales the drop by \<open>k\<close>; the 50 m, 0.5 A, 18 AWG example with two cores
  gives 0.5225 V, half of 1.045 V.
\<close>

theorem forward_proportional:
  assumes "resistance_per_meter_at_20c cable_type conductor_spec = Some r20"
    and "N \<noteq> 0"
    and "\<bar>N\<bar> < 2 ^ 1024 - 2 ^ 970"
  shows "\<exists>v1 vN.
      calculate_voltage_drop length_m current_a cable_type conductor_spec 1 temp_c = Inr v1
      \<and> calculate_voltage_drop length_m current_a cable_type conductor_spec N temp_c = Inr vN
      \<and> vN = v1 / of_int N
      \<and> calculate_voltage_drop length_m (k * current_a) cable_type conductor_spec N temp_c =
          Inr (k * vN)
      \<and> calculate_voltage_drop (k * length_m) current_a cable_type conductor_spec N temp_c =
          Inr (k * vN)
      \<and> calculate_voltage_drop 50 0.5 ''alarm'' ''18 AWG'' 2 20 = Inr 0.5225
      \<and> (0.5225::real) = 1.045 / 2"
proof -
  note n = assms(2,3)
  have one: "(1::int) \<noteq> 0" "\<bar>1::int\<bar> < 2 ^ 1024 - 2 ^ 970"
    by simp_all
  have two: "(2::int) \<noteq> 0" "\<bar>2::int\<bar> < 2 ^ 1024 - 2 ^ 970"
    by simp_all
  have ex: "calculate_voltage_drop 50 0.5 ''alarm'' ''18 AWG'' 2 20 = Inr 0.5225"
    by (simp add: forward_valid [OF lookup_alarm_18 two] resistance_per_meter_at_temp_def
        ALPHA_COPPER_def)
  show ?thesis
    using ex by (simp add: forward_valid [OF assms(1) n] forward_valid [OF assms(1) one])
qed

theorem forward_proportional_witness:
  "resistance_per_meter_at_20c ''network'' ''Cat5e'' = Some 0.0938 \<and> (4::int) \<noteq> 0
   \<and> \<bar>4::int\<bar> < 2 ^ 1024 - 2 ^ 970
   \<and> calculate_voltage_drop 100 1 ''network'' ''Cat5e'' 1 20 = Inr 18.76
   \<and> calculate_voltage_drop 100 1 ''network'' ''Cat5e'' 4 20 = Inr (18.76 / 4)
   \<and> calculate_voltage_drop 100 (3 * 1) ''network'' ''Cat5e'' 4 20 = Inr (3 * (18.76 / 4))
   \<and> calculate_voltage_drop (3 * 100) 1 ''network'' ''Cat5e'' 4 20 = Inr (3 * (18.76 / 4))"
proof -
  have h: "resistance_per_meter_at_20c ''network'' ''Cat5e'' = Some 0.0938"
    using lookup_network_cat5e by simp
  have c: "(4::int) \<noteq> 0" and b: "\<bar>4::int\<bar> < 2 ^ 1024 - 2 ^ 970"
    by simp_all
  have one: "(1::int) \<noteq> 0" "\<bar>1::int\<bar> < 2 ^ 1024 - 2 ^ 970"
    by simp_all
  have v1: "calculate_voltage_drop 100 1 ''network'' ''Cat5e'' 1 20 = Inr 18.76"
    by (simp add: forward_valid [OF lookup_network_cat5e one] resistance_per_meter_at_temp_def
        ALPHA_COPPER_def)
  from forward_proportional [OF h c b, of 100 1 20 3] v1 h c b show ?thesis
    by auto
qed

text \<open>
  C9. Compensating a reference resistance to 20 degrees returns it unchanged: the
  factor \<open>1 + ALPHA_COPPER * (20 - 20)\<close> is 1.
\<close>

theorem compensation_identity_at_reference:
  "resistance_per_meter_at_temp r20 20 = r20 \<and> 1 + ALPHA_COPPER * (20 - 20) = 1"
  by (simp add: resistance_per_meter_at_temp_def)

text \<open>
  C10. With a catalogued pair and \<open>num_cores = 0\<close> the forward calculator raises
  \<^verbatim>\<open>ZeroDivisionError\<close>, whatever the other arguments: nothing checks the divisor.
\<close>

theorem forward_zero_cores_raises:
  assumes "resistance_per_meter_at_20c cable_type conductor_spec = Some r20"
  shows "calculate_voltage_drop length_m current_a cable_type conductor_spec 0 temp_c =
     Inl ZeroDivisionError"
  using assms by (rule forward_zero_cores)

theorem forward_zero_cores_raises_witness:
  "resistance_per_meter_at_20c ''alarm'' ''24 AWG'' = Some 0.0529
   \<and> calculate_voltage_drop 10 1 ''alarm'' ''24 AWG'' 0 20 = Inl ZeroDivisionError"
proof -
  have h: "resistance_per_meter_at_20c ''alarm'' ''24 AWG'' = Some 0.0529"
    using lookup_alarm_24 by simp
  show ?thesis
    using h forward_zero_cores_raises [OF h, of 10 1 20] by simp
qed

section \<open>The catalogue\<close>

text \<open>
  C7. The five tabulated pairs look up to exactly their tabulated resistances; for
  every other pair both the forward calculator and the reverse solver raise
  \<^verbatim>\<open>ValueError\<close>, whatever the other arguments.
\<close>

theorem catalogue_lookup:
  assumes "(cable_type, conductor_spec) \<notin>
      {(''alarm'', ''18 AWG''), (''alarm'', ''22 AWG''), (''alarm'', ''24 AWG''),
       (''network'', ''Cat5e''), (''network'', ''Cat6'')}"
  shows "resistance_per_meter_at_20c ''alarm'' ''18 AWG'' = Some 0.0209
     \<and> resistance_per_meter_at_20c ''alarm'' ''22 AWG'' = Some 0.0333
     \<and> resistance_per_meter_at_20c ''alarm'' ''24 AWG'' = Some 0.0529
     \<and> resistance_per_meter_at_20c ''network'' ''Cat5e'' = Some 0.0938
     \<and> resistance_per_meter_at_20c ''network'' ''Cat6'' = Some 0.0700
     \<and> calculate_voltage_drop length_m current_a cable_type conductor_spec num_cores temp_c =
         Inl ValueError
     \<and> determine_cores_required length_m' required_voltage required_current cable_type
         conductor_spec min_voltage_percent_drop temp_c' = Inl ValueError"
proof -
  from assms have "resistance_per_meter_at_20c cable_type conductor_spec = None"
    by (rule lookup_other)
  then show ?thesis
    by (simp only: forward_invalid reverse_invalid lookup_alarm_18 lookup_alarm_22
        lookup_alarm_24 lookup_network_cat5e lookup_network_cat6 simp_thms)
qed

theorem catalogue_lookup_witness:
  "(''alarm'', ''Cat6'') \<notin>
      {(''alarm'', ''18 AWG''), (''alarm'', ''22 AWG''), (''alarm'', ''24 AWG''),
       (''network'', ''Cat5e''), (''network'', ''Cat6'')}
   \<and> calculate_voltage_drop 50 1 ''alarm'' ''Cat6'' 0 20 = Inl ValueError
   \<and> determine_cores_required 50 12 0 ''alarm'' ''Cat6'' 10 20 = Inl ValueError"
proof -
  have h: "(''alarm'', ''Cat6'') \<notin>
      {(''alarm'', ''18 AWG''), (''alarm'', ''22 AWG''), (''alarm'', ''24 AWG''),
       (''network'', ''Cat5e''), (''network'', ''Cat6'')}"
    by simp
  from catalogue_lookup [OF h, of 50 1 0 20 50 12 0 10 20] h show ?thesis
    by blast
qed


section \<open>The reverse solver\<close>



text \<open>
  C4, as stated, fails where the current is zero: the zero-current guard comes first
  and answers one core, with a zero percentage as with a zero source voltage.
\<close>

theorem reverse_zero_budget_counterexample:
  "resistance_per_meter_at_20c ''network'' ''Cat5e'' = Some 0.0938
   \<and> determine_cores_required 100 12 0 ''network'' ''Cat5e'' 0 20 = Inr (PyInt 1)
   \<and> determine_cores_required 100 0 0 ''network'' ''Cat5e'' 10 20 = Inr (PyInt 1)
   \<and> PyInt 1 \<noteq> PyFloat_inf"
  by (simp add: reverse_zero_current [OF lookup_network_cat5e] lookup_network_cat5e)

text \<open>
  C4, amended. For a catalogued pair and a current that is not zero, a call with
  \<open>min_voltage_percent_drop = 0\<close> or with \<open>required_voltage = 0\<close> returns the infeasible
  marker \<^verbatim>\<open>float('inf')\<close>, whatever the length and the temperature.
\<close>

theorem reverse_zero_budget_infeasible:
  assumes "resistance_per_meter_at_20c cable_type conductor_spec = Some r20"
    and "required_current \<noteq> 0"
    and "min_voltage_percent_drop = 0 \<or> required_voltage = 0"
  shows "determine_cores_required length_m required_voltage required_current cable_type
       conductor_spec min_voltage_percent_drop temp_c = Inr PyFloat_inf"
proof -
  from assms(3)
  have "required_voltage * (min_voltage_percent_drop / 100) / required_current \<le> 0"
    by auto
  with assms(1,2) show ?thesis
    by (rule reverse_infeasible)
qed

theorem reverse_zero_budget_infeasible_witness:
  "resistance_per_meter_at_20c ''alarm'' ''18 AWG'' = Some 0.0209
   \<and> (3::real) \<noteq> 0 \<and> ((0::real) = 0 \<or> (12::real) = 0) \<and> ((10::real) = 0 \<or> (0::real) = 0)
   \<and> determine_cores_required 40 12 3 ''alarm'' ''18 AWG'' 0 20 = Inr PyFloat_inf
   \<and> determine_cores_required 40 0 3 ''alarm'' ''18 AWG'' 10 20 = Inr PyFloat_inf"
proof -
  have h: "resistance_per_meter_at_20c ''alarm'' ''18 AWG'' = Some 0.0209"
    using lookup_alarm_18 by simp
  have c: "(3::real) \<noteq> 0"
    and p: "(0::real) = 0 \<or> (12::real) = 0" and v: "(10::real) = 0 \<or> (0::real) = 0"
    by simp_all
  from reverse_zero_budget_infeasible [OF h c p, of 40 20]
    reverse_zero_budget_infeasible [OF h c v, of 40 20] h
  show ?thesis
    by simp
qed

text \<open>
  C6. For a catalogued pair and \<open>required_current = 0\<close> the reverse solver returns one
  core when the allowed drop \<open>required_voltage * (min_voltage_percent_drop / 100)\<close> is not
  negative and the infeasible marker otherwise, whatever the length, the temperature
  and the percentage: no later test is reached.
\<close>

theorem reverse_zero_current_guard:
  assumes "resistance_per_meter_at_20c cable_type conductor_spec = Some r20"
  shows "determine_cores_required length_m required_voltage 0 cable_type
       conductor_spec min_voltage_percent_drop temp_c =
     Inr (if 0 \<le> required_voltage * (min_voltage_percent_drop / 100)
          then PyInt 1 else PyFloat_inf)"
  using assms by (rule reverse_zero_current)

theorem reverse_zero_current_guard_witness:
  "resistance_per_meter_at_20c ''alarm'' ''22 AWG'' = Some 0.0333
   \<and> determine_cores_required 75 24 0 ''alarm'' ''22 AWG'' 10 20 = Inr (PyInt 1)
   \<and> determine_cores_required 75 (- 24) 0 ''alarm'' ''22 AWG'' 10 20 = Inr PyFloat_inf"
proof -
  have h: "resistance_per_meter_at_20c ''alarm'' ''22 AWG'' = Some 0.0333"
    using lookup_alarm_22 by simp
  from reverse_zero_current_guard [OF h, of 75 24 10 20]
    reverse_zero_current_guard [OF h, of 75 "- 24" 10 20] h
  show ?thesis
    by simp
qed

text \<open>
  C5, as stated, fails: the infeasible outcome is the number \<^verbatim>\<open>float('inf')\<close>, a float
  and not an int, returned by a function documented as returning an int.
\<close>

theorem reverse_infeasible_is_float_counterexample:
  "determine_cores_required 100 12 1 ''network'' ''Cat5e'' 0 20 = Inr PyFloat_inf
   \<and> is_float PyFloat_inf \<and> \<not> is_int PyFloat_inf"
proof -
  have "(1::real) \<noteq> 0" and "(12::real) * (0 / 100) / 1 \<le> 0"
    by simp_all
  with lookup_network_cat5e
  have "determine_cores_required 100 12 1 ''network'' ''Cat5e'' 0 20 = Inr PyFloat_inf"
    by (rule reverse_infeasible)
  then show ?thesis
    by simp
qed

text \<open>
  C5, amended. Whenever the reverse solver returns, it returns either the float
  \<^verbatim>\<open>float('inf')\<close>, which is the infeasible outcome and compares unequal to every int, or
  an int core count of at least 1; and it returns \<^verbatim>\<open>float('inf')\<close> exactly when the
  current is zero and the allowed drop negative, or the current is not zero and the
  allowed resistance not positive.
\<close>

theorem reverse_result_shape:
  assumes "determine_cores_required length_m required_voltage required_current cable_type
       conductor_spec min_voltage_percent_drop temp_c = Inr res"
  shows "((res = PyFloat_inf \<and> is_float res \<and> (\<forall>n. \<not> py_eq res (PyInt n)))
          \<or> (\<exists>n. res = PyInt n \<and> 1 \<le> n \<and> is_int res \<and> \<not> py_eq res PyFloat_inf))
     \<and> (res = PyFloat_inf) =
         (if required_current = 0
          then required_voltage * (min_voltage_percent_drop / 100) < 0
          else required_voltage * (min_voltage_percent_drop / 100) / required_current \<le> 0)"
proof (cases "resistance_per_meter_at_20c cable_type conductor_spec")
  case None
  with assms show ?thesis
    by (simp add: reverse_invalid)
next
  case (Some r20)
  show ?thesis
  proof (cases "required_current = 0")
    case True
    with assms reverse_zero_current [OF Some] show ?thesis
      by (auto split: if_splits)
  next
    case current: False
    show ?thesis
    proof (cases "required_voltage * (min_voltage_percent_drop / 100) / required_current \<le> 0")
      case True
      from assms reverse_infeasible [OF Some current True] have "res = PyFloat_inf"
        by simp
      with current True show ?thesis
        by simp
    next
      case False
      then have "0 < required_voltage * (min_voltage_percent_drop / 100) / required_current"
        by simp
      from assms reverse_quotient [OF Some current this]
      obtain n where "res = PyInt n" "1 \<le> n"
        by (auto simp: py_int_round_def split: if_splits)
      with current False show ?thesis
        by simp
    qed
  qed
qed

theorem reverse_result_shape_witness:
  "determine_cores_required 100 12 (- 1) ''network'' ''Cat6'' 10 20 = Inr PyFloat_inf
   \<and> is_float PyFloat_inf \<and> (\<forall>n. \<not> py_eq PyFloat_inf (PyInt n))
   \<and> (12::real) * (10 / 100) / (- 1) \<le> 0"
proof -
  have "(- 1::real) \<noteq> 0" and "(12::real) * (10 / 100) / (- 1) \<le> 0"
    by simp_all
  with lookup_network_cat6
  have h: "determine_cores_required 100 12 (- 1) ''network'' ''Cat6'' 10 20 = Inr PyFloat_inf"
    by (rule reverse_infeasible)
  from reverse_result_shape [OF h] h show ?thesis
    by simp
qed

end
